theory Spec2Isabelle
  imports Complex_Main "HOL-Library.AList" "HOL-Library.Multiset"
begin

section \<open>Dataset splitting (ludwig/data/split.py)\<close>

subsection \<open>Python values and errors\<close>

text \<open>
  Exceptions are values of \<open>error\<close>; a computation that may raise returns \<open>error + 'a\<close>
  with \<open>Inl\<close> for the raised exception. \<open>ValueError\<close> carries the message the source
  gives it, \<open>AttributeError\<close> the attribute that is missing, \<open>KeyError\<close> the key.
\<close>

datatype error =
    ValueError string
  | AttributeError string
  | KeyError string
  | IndexError
  | TypeError

definition bind_err :: "error + 'a \<Rightarrow> ('a \<Rightarrow> error + 'b) \<Rightarrow> error + 'b" where
  "bind_err m f = (case m of Inl e \<Rightarrow> Inl e | Inr x \<Rightarrow> f x)"

text \<open>Subscription \<open>xs[i]\<close> of a Python sequence; \<open>xs[-1]\<close> is the last element.\<close>

definition py_index :: "'a list \<Rightarrow> int \<Rightarrow> error + 'a" where
  "py_index xs i =
     (if 0 \<le> i \<and> i < int (length xs) then Inr (xs ! nat i)
      else if - int (length xs) \<le> i \<and> i < 0 then Inr (xs ! nat (int (length xs) + i))
      else Inl IndexError)"

text \<open>Python \<open>int(x)\<close> on a number: truncation towards zero.\<close>

definition py_int :: "real \<Rightarrow> int" where
  "py_int x = (if 0 \<le> x then \<lfloor>x\<rfloor> else \<lceil>x\<rceil>)"

subsection \<open>Python floats\<close>

text \<open>
  A Python float is an IEEE 754 double; the model holds it as the real number that the
  double denotes. \<open>py_float x\<close> is the double nearest to the real \<open>x\<close>: 53 significant
  bits, ties to the even significand, with the fixed spacing \<open>2^-1074\<close> below the normal
  range. It is the value of a decimal literal, and the result of an arithmetic operation
  is \<open>py_float\<close> of the exact result. Overflow to infinity and NaN are not represented.
  \<open>bit_length\<close> is Python's \<open>int.bit_length\<close>; \<open>float_exponent x\<close> is the binary
  exponent of a positive \<open>x\<close>.
\<close>

fun bit_length :: "nat \<Rightarrow> nat" where
  "bit_length n = (if n = 0 then 0 else Suc (bit_length (n div 2)))"

declare bit_length.simps [simp del]

definition pow2 :: "int \<Rightarrow> real" where
  "pow2 k = (if 0 \<le> k then 2 ^ nat k else 1 / 2 ^ nat (- k))"

definition float_exponent :: "real \<Rightarrow> int" where
  "float_exponent x =
     (if 1 \<le> x then int (bit_length (nat \<lfloor>x\<rfloor>)) - 1
      else - int (bit_length (nat (\<lceil>1 / x\<rceil> - 1))))"

definition round_half_even :: "real \<Rightarrow> int" where
  "round_half_even y =
     (let f = \<lfloor>y\<rfloor>; d = y - of_int f
      in if d < 1 / 2 then f else if 1 / 2 < d then f + 1 else if even f then f else f + 1)"

definition py_float :: "real \<Rightarrow> real" where
  "py_float x =
     (if x = 0 then 0
      else let u = pow2 (max (float_exponent \<bar>x\<bar>) (- 1022) - 52)
           in sgn x * (of_int (round_half_even (\<bar>x\<bar> / u)) * u))"

text \<open>The product of two floats, and of a float and an \<open>int\<close> (which is converted first).\<close>

definition float_mul :: "real \<Rightarrow> real \<Rightarrow> real" where
  "float_mul x y = py_float (x * y)"

definition float_mul_int :: "real \<Rightarrow> nat \<Rightarrow> real" where
  "float_mul_int x n = float_mul x (py_float (real n))"

subsection \<open>Module constants\<close>

definition TMP_SPLIT_COL :: string where
  "TMP_SPLIT_COL = ''__SPLIT__''"

text \<open>The literals 0.7, 0.1 and 0.2 denote the doubles nearest to these decimals.\<close>

definition DEFAULT_PROBABILITIES :: "real list" where
  "DEFAULT_PROBABILITIES = [py_float (7 / 10), py_float (1 / 10), py_float (2 / 10)]"

definition default_random_seed :: int where
  "default_random_seed = 42"

text \<open>
  Modelled from the spec: the constant \<open>SPLIT\<close> of \<open>ludwig.constants\<close> is not among the
  sources; the spec calls it the reserved "split" column name, and the warning of
  \<open>split_dataset\<close> prints it as "split".
\<close>

definition SPLIT :: string where
  "SPLIT = ''split''"

subsection \<open>Splitter objects\<close>

text \<open>
  One constructor per class, holding the attributes its \<open>__init__\<close> stores.
\<close>

datatype splitter =
    RandomSplitter (rs_probabilities: "real list")
  | FixedSplitter (fs_column: string)
  | StratifySplitter (ss_column: string) (ss_probabilities: "real list")
  | DatetimeSplitter (ds_column: string) (ds_probabilities: "real list")
      (ds_datetime_format: "string option") (ds_fill_value: string)

text \<open>
  The keyword arguments of \<open>get_splitter\<close>: \<open>type\<close> and the keywords the constructors
  read; a keyword that is absent is \<open>None\<close>. Every constructor takes \<open>**kwargs\<close>, so a
  keyword it does not name is accepted and dropped.
\<close>

record split_config =
  cfg_type :: "string option"
  cfg_column :: "string option"
  cfg_probabilities :: "real list option"
  cfg_datetime_format :: "string option"
  cfg_fill_value :: "string option"

definition empty_config :: split_config where
  "empty_config = \<lparr>cfg_type = None, cfg_column = None, cfg_probabilities = None,
     cfg_datetime_format = None, cfg_fill_value = None\<rparr>"

definition or_default :: "'a option \<Rightarrow> 'a \<Rightarrow> 'a" where
  "or_default v d = (case v of None \<Rightarrow> d | Some x \<Rightarrow> x)"

definition RandomSplitter_init :: "split_config \<Rightarrow> error + splitter" where
  "RandomSplitter_init kw =
     Inr (RandomSplitter (or_default (cfg_probabilities kw) DEFAULT_PROBABILITIES))"

definition FixedSplitter_init :: "split_config \<Rightarrow> error + splitter" where
  "FixedSplitter_init kw = Inr (FixedSplitter (or_default (cfg_column kw) SPLIT))"

text \<open>\<open>column\<close> has no default in the next two classes: calling without it is a TypeError.\<close>

definition StratifySplitter_init :: "split_config \<Rightarrow> error + splitter" where
  "StratifySplitter_init kw =
     (case cfg_column kw of
        None \<Rightarrow> Inl TypeError
      | Some c \<Rightarrow>
          Inr (StratifySplitter c (or_default (cfg_probabilities kw) DEFAULT_PROBABILITIES)))"

definition DatetimeSplitter_init :: "split_config \<Rightarrow> error + splitter" where
  "DatetimeSplitter_init kw =
     (case cfg_column kw of
        None \<Rightarrow> Inl TypeError
      | Some c \<Rightarrow>
          Inr (DatetimeSplitter c (or_default (cfg_probabilities kw) DEFAULT_PROBABILITIES)
                 (cfg_datetime_format kw) (or_default (cfg_fill_value kw) [])))"

subsection \<open>Registry and resolution\<close>

type_synonym registry = "string option \<Rightarrow> (split_config \<Rightarrow> error + splitter) option"

text \<open>
  Modelled from the spec: the class \<open>Registry\<close> of \<open>ludwig.utils.registry\<close> is not among
  the sources. The spec describes a name-to-constructor table keyed by "random" (marked
  default), "fixed", "stratify" and "datetime", where the absence of a type name
  resolves to the default-marked variant; \<open>get\<close> on a name that is not registered
  yields \<open>None\<close>, which is what the test in \<open>get_splitter\<close> reads.
\<close>

definition split_registry :: registry where
  "split_registry t =
     (if t = None \<or> t = Some ''random'' then Some RandomSplitter_init
      else if t = Some ''fixed'' then Some FixedSplitter_init
      else if t = Some ''stratify'' then Some StratifySplitter_init
      else if t = Some ''datetime'' then Some DatetimeSplitter_init
      else None)"

text \<open>
  What a call hands back: a splitter, or an exception object that was returned rather
  than raised.
\<close>

datatype pyobj = SplitterObj splitter | ExcObj error

text \<open>The f-string \<open>{type}\<close> of an optional string.\<close>

definition str_of_type :: "string option \<Rightarrow> string" where
  "str_of_type t = (case t of None \<Rightarrow> ''None'' | Some s \<Rightarrow> s)"

definition get_splitter :: "registry \<Rightarrow> split_config \<Rightarrow> error + pyobj" where
  "get_splitter reg kw =
     (case reg (cfg_type kw) of
        None \<Rightarrow> Inr (ExcObj (ValueError (''Invalid split type: '' @ str_of_type (cfg_type kw))))
      | Some splitter_cls \<Rightarrow> bind_err (splitter_cls kw) (\<lambda>s. Inr (SplitterObj s)))"

subsection \<open>has_split\<close>

text \<open>
  \<open>Splitter.has_split\<close> returns True; \<open>RandomSplitter\<close>, \<open>StratifySplitter\<close> and
  \<open>DatetimeSplitter\<close> override it, \<open>FixedSplitter\<close> does not.
\<close>

fun has_split :: "splitter \<Rightarrow> int \<Rightarrow> error + bool" where
  "has_split (RandomSplitter ps) split_index =
     bind_err (py_index ps split_index) (\<lambda>p. Inr (0 < p))"
| "has_split (FixedSplitter c) split_index = Inr True"
| "has_split (StratifySplitter c ps) split_index =
     bind_err (py_index ps split_index) (\<lambda>p. Inr (0 < p))"
| "has_split (DatetimeSplitter c ps f v) split_index =
     bind_err (py_index ps split_index) (\<lambda>p. Inr (0 < p))"

text \<open>The probabilities a splitter object stores, if its class stores any.\<close>

fun splitter_probabilities :: "splitter \<Rightarrow> real list option" where
  "splitter_probabilities (RandomSplitter ps) = Some ps"
| "splitter_probabilities (FixedSplitter c) = None"
| "splitter_probabilities (StratifySplitter c ps) = Some ps"
| "splitter_probabilities (DatetimeSplitter c ps f v) = Some ps"

subsection \<open>Dataframes\<close>

text \<open>
  A cell holds a preprocessed value: a number, a string, or the list of integers the date
  preprocessing produces. A row is its index label and its cells keyed by column name,
  in column order; a dataframe is its column names and its rows. Missing values (NaN)
  are not represented.
\<close>

datatype cell = IntC int | StrC string | ListC "int list"

type_synonym row = "int \<times> (string \<times> cell) list"

record dataframe =
  columns :: "string list"
  rows :: "row list"

text \<open>A frame is rectangular when every row has exactly the frame's columns.\<close>

definition df_wf :: "dataframe \<Rightarrow> bool" where
  "df_wf df = (distinct (columns df) \<and> list_all (\<lambda>r. map fst (snd r) = columns df) (rows df))"

definition df_len :: "dataframe \<Rightarrow> nat" where
  "df_len df = length (rows df)"

text \<open>\<open>c in df\<close>\<close>

definition df_contains :: "string \<Rightarrow> dataframe \<Rightarrow> bool" where
  "df_contains c df = (c \<in> set (columns df))"


definition row_cell :: "row \<Rightarrow> string \<Rightarrow> cell" where
  "row_cell r c = the (map_of (snd r) c)"

text \<open>\<open>df[c]\<close>: the values of a column, by position; KeyError when there is no such column.\<close>

definition df_getitem :: "dataframe \<Rightarrow> string \<Rightarrow> error + cell list" where
  "df_getitem df c =
     (if c \<in> set (columns df) then Inr (map (\<lambda>r. row_cell r c) (rows df)) else Inl (KeyError c))"

text \<open>
  \<open>df[c] = values\<close>: an existing column is overwritten in place, a new one is appended
  as the last column. The values are given by position (an array, or a series that has
  the frame's own index); pandas refuses a wrong number of values.
\<close>

definition row_set :: "string \<Rightarrow> cell \<Rightarrow> row \<Rightarrow> row" where
  "row_set c v r = (fst r, AList.update c v (snd r))"

definition df_setitem :: "dataframe \<Rightarrow> string \<Rightarrow> cell list \<Rightarrow> error + dataframe" where
  "df_setitem df c vs =
     (if length vs = length (rows df)
      then Inr \<lparr>columns = (if c \<in> set (columns df) then columns df else columns df @ [c]),
                rows = map (\<lambda>(v, r). row_set c v r) (zip vs (rows df))\<rparr>
      else Inl (ValueError ''Length of values does not match length of index''))"

text \<open>\<open>df.drop(columns=c)\<close>: a new frame without the column; KeyError when it is not there.\<close>

definition row_drop :: "string \<Rightarrow> row \<Rightarrow> row" where
  "row_drop c r = (fst r, AList.delete c (snd r))"

definition df_drop :: "dataframe \<Rightarrow> string \<Rightarrow> error + dataframe" where
  "df_drop df c =
     (if c \<in> set (columns df)
      then Inr \<lparr>columns = removeAll c (columns df), rows = map (row_drop c) (rows df)\<rparr>
      else Inl (KeyError c))"

text \<open>A Python slice \<open>xs[st:en]\<close> with integer bounds: negative bounds count from the end.\<close>

definition slice_bound :: "nat \<Rightarrow> int \<Rightarrow> nat" where
  "slice_bound n i = (if i < 0 then nat (max 0 (int n + i)) else min n (nat i))"

definition py_slice :: "'a list \<Rightarrow> int \<Rightarrow> int \<Rightarrow> 'a list" where
  "py_slice xs st en =
     (let a = slice_bound (length xs) st; b = slice_bound (length xs) en
      in take (b - a) (drop a xs))"

definition df_slice :: "dataframe \<Rightarrow> int \<Rightarrow> int \<Rightarrow> dataframe" where
  "df_slice df st en = df\<lparr>rows := py_slice (rows df) st en\<rparr>"

text \<open>The three outputs of a split; an output may be \<open>None\<close>.\<close>

type_synonym folds = "dataframe option \<times> dataframe option \<times> dataframe option"

text \<open>
  \<open>np.split(df, [d1, d2])\<close>: numpy cuts at the division points 0, d1, d2, len(df) and
  takes the slice between each two neighbours.
\<close>

definition np_split :: "dataframe \<Rightarrow> int \<Rightarrow> int \<Rightarrow> folds" where
  "np_split df d1 d2 =
     (Some (df_slice df 0 d1), Some (df_slice df d1 d2), Some (df_slice df d2 (int (df_len df))))"

text \<open>
  Modelled from the spec: \<open>split_dataset_ttv\<close> of \<open>ludwig.utils.data_utils\<close> is not among
  the sources. The spec has it partition the rows by equality of the given column to
  0, 1 and 2 respectively, preserving the row order within each fold.
\<close>

definition df_where_eq :: "dataframe \<Rightarrow> string \<Rightarrow> int \<Rightarrow> dataframe" where
  "df_where_eq df c i = df\<lparr>rows := filter (\<lambda>r. row_cell r c = IntC i) (rows df)\<rparr>"

definition split_dataset_ttv :: "dataframe \<Rightarrow> string \<Rightarrow> error + folds" where
  "split_dataset_ttv df c =
     (if c \<in> set (columns df)
      then Inr (Some (df_where_eq df c 0), Some (df_where_eq df c 1), Some (df_where_eq df c 2))
      else Inl (KeyError c))"

subsection \<open>Random state and backend\<close>

text \<open>
  The process-wide random generator: the seed it was last given and how many numbers
  were drawn since.
\<close>

record rng_state =
  rng_seed :: int
  rng_drawn :: nat

definition set_random_seed :: "int \<Rightarrow> rng_state" where
  "set_random_seed s = \<lparr>rng_seed = s, rng_drawn = 0\<rparr>"

text \<open>
  The operations that the source calls on \<open>backend.df_engine\<close> and on the dataframe
  library behind it are parameters of the model:
  \<^item> \<open>partitioned\<close>: the flag \<open>backend.df_engine.partitioned\<close>;
  \<^item> \<open>random_split\<close>: \<open>df.random_split(probabilities, random_state=seed)\<close> of a
    partitioned frame;
  \<^item> \<open>permutation\<close>: the order in which \<open>df.sample(frac=1, random_state=seed)\<close>
    returns the positions of a frame of n rows;
  \<^item> \<open>choice\<close>: \<open>array_lib.random.choice(3, k, p=probabilities)\<close>, which reads and
    advances the random generator;
  \<^item> \<open>to_datetime\<close>: \<open>db_lib.to_datetime(series).values.astype("int64")\<close>;
  \<^item> \<open>engine_split\<close>: \<open>backend.df_engine.split(df, probabilities)\<close>.
\<close>

record backend =
  partitioned :: bool
  random_split :: "dataframe \<Rightarrow> real list \<Rightarrow> int \<Rightarrow> error + folds"
  permutation :: "int \<Rightarrow> nat \<Rightarrow> nat list"
  choice :: "real list \<Rightarrow> nat \<Rightarrow> rng_state \<Rightarrow> error + (int list \<times> rng_state)"
  to_datetime :: "cell list \<Rightarrow> error + int list"
  engine_split :: "dataframe \<Rightarrow> real list \<Rightarrow> error + folds"

definition df_sample :: "backend \<Rightarrow> dataframe \<Rightarrow> int \<Rightarrow> dataframe" where
  "df_sample be df seed = df\<lparr>rows := map (\<lambda>i. rows df ! i) (permutation be seed (df_len df))\<rparr>"

text \<open>
  What a call of \<open>split\<close> leaves behind: its result (or the exception it raised), the
  dataframe object the caller passed in, as it is after the call, and the random state.
\<close>

record outcome =
  result :: "error + folds"
  caller_df :: dataframe
  rng :: rng_state

subsection \<open>The shared helper\<close>

text \<open>
  \<open>_split_on_series(df, series)\<close>: the assignment \<open>df[TMP_SPLIT_COL] = series\<close> writes
  into the caller's object; \<open>drop\<close> returns new frames.
\<close>

definition drop_if_not_None :: "dataframe option \<Rightarrow> string \<Rightarrow> error + dataframe option" where
  "drop_if_not_None d c =
     (case d of None \<Rightarrow> Inr None | Some f \<Rightarrow> bind_err (df_drop f c) (\<lambda>f'. Inr (Some f')))"

definition split_on_series :: "dataframe \<Rightarrow> cell list \<Rightarrow> (error + folds) \<times> dataframe" where
  "split_on_series df series =
     (case df_setitem df TMP_SPLIT_COL series of
        Inl e \<Rightarrow> (Inl e, df)
      | Inr df1 \<Rightarrow>
          (bind_err (split_dataset_ttv df1 TMP_SPLIT_COL) (\<lambda>(a, b, c).
             bind_err (drop_if_not_None a TMP_SPLIT_COL) (\<lambda>a'.
             bind_err (drop_if_not_None b TMP_SPLIT_COL) (\<lambda>b'.
             bind_err (drop_if_not_None c TMP_SPLIT_COL) (\<lambda>c'.
               Inr (a', b', c'))))),
           df1))"

subsection \<open>RandomSplitter.split\<close>

text \<open>
  The cut points are \<open>int(self.probabilities[0] * n)\<close> and
  \<open>d1 + int(self.probabilities[1] * n)\<close>: each product is a float product, truncated.
\<close>

definition RandomSplitter_split ::
  "backend \<Rightarrow> real list \<Rightarrow> dataframe \<Rightarrow> int \<Rightarrow> rng_state \<Rightarrow> outcome" where
  "RandomSplitter_split be probabilities df random_seed g =
     (let g1 = set_random_seed random_seed in
      if partitioned be
      then \<lparr>result = random_split be df probabilities random_seed, caller_df = df, rng = g1\<rparr>
      else
        let n = df_len df in
        \<lparr>result =
           bind_err (py_index probabilities 0) (\<lambda>p0.
             let d1 = py_int (float_mul_int p0 n) in
             bind_err (py_index probabilities 1) (\<lambda>p1.
               let d2 = d1 + py_int (float_mul_int p1 n) in
               Inr (np_split (df_sample be df random_seed) d1 d2))),
         caller_df = df, rng = g1\<rparr>)"

subsection \<open>FixedSplitter.split\<close>

definition FixedSplitter_split ::
  "backend \<Rightarrow> string \<Rightarrow> dataframe \<Rightarrow> int \<Rightarrow> rng_state \<Rightarrow> outcome" where
  "FixedSplitter_split be column df random_seed g =
     (case df_getitem df column of
        Inl e \<Rightarrow> \<lparr>result = Inl e, caller_df = df, rng = g\<rparr>
      | Inr series \<Rightarrow>
          (case split_on_series df series of
             (res, df') \<Rightarrow> \<lparr>result = res, caller_df = df', rng = g\<rparr>))"

subsection \<open>StratifySplitter.split\<close>

text \<open>
  \<open>series.unique()\<close>: the distinct values in order of first appearance; a list is not
  hashable.
\<close>

fun is_list :: "cell \<Rightarrow> bool" where
  "is_list (ListC xs) = True"
| "is_list (IntC i) = False"
| "is_list (StrC s) = False"

definition series_unique :: "cell list \<Rightarrow> error + cell list" where
  "series_unique vs =
     (if list_all (\<lambda>v. \<not> is_list v) vs then Inr (rev (remdups (rev vs))) else Inl TypeError)"

text \<open>
  \<open>split[idx_list] = val_list\<close> on a numpy array: every index must lie in
  \<open>[-len, len)\<close>, a negative one counts from the end; with a repeated index the last
  value written stays.
\<close>

definition np_pos :: "nat \<Rightarrow> int \<Rightarrow> nat" where
  "np_pos n i = nat (if i < 0 then int n + i else i)"

definition np_setitem :: "int list \<Rightarrow> int list \<Rightarrow> int list \<Rightarrow> error + int list" where
  "np_setitem arr idx vals =
     (if list_all (\<lambda>i. - int (length arr) \<le> i \<and> i < int (length arr)) idx
      then if length vals = length idx
           then Inr (fold (\<lambda>(i, v) a. a[np_pos (length arr) i := v]) (zip idx vals) arr)
           else Inl (ValueError ''shape mismatch'')
      else Inl IndexError)"

definition stratify_message :: string where
  \<open>stratify_message = ''Split type "stratify" is not supported with a partitioned dataset.''\<close>

text \<open>
  The loop \<open>for val in df[self.column].unique()\<close>, with the label array and the random
  state as they pass from one round to the next. The labels are kept as integers (numpy
  holds them as the floats 0.0, 1.0, 2.0, which compare equal to 0, 1, 2).
\<close>

fun stratify_loop ::
  "backend \<Rightarrow> real list \<Rightarrow> dataframe \<Rightarrow> string \<Rightarrow> cell list \<Rightarrow> int list \<Rightarrow> rng_state \<Rightarrow>
   (error + int list) \<times> rng_state" where
  "stratify_loop be ps df c [] split g = (Inr split, g)"
| "stratify_loop be ps df c (val # vals) split g =
     (let idx_list = map fst (filter (\<lambda>r. row_cell r c = val) (rows df)) in
      case choice be ps (length idx_list) g of
        Inl e \<Rightarrow> (Inl e, g)
      | Inr (val_list, g') \<Rightarrow>
          (case np_setitem split idx_list val_list of
             Inl e \<Rightarrow> (Inl e, g')
           | Inr split' \<Rightarrow> stratify_loop be ps df c vals split' g'))"

definition StratifySplitter_split ::
  "backend \<Rightarrow> string \<Rightarrow> real list \<Rightarrow> dataframe \<Rightarrow> int \<Rightarrow> rng_state \<Rightarrow> outcome" where
  "StratifySplitter_split be column probabilities df random_seed g =
     (if partitioned be
      then \<lparr>result = Inl (ValueError stratify_message), caller_df = df, rng = g\<rparr>
      else
        let g1 = set_random_seed random_seed;
            split = replicate (df_len df) 0
        in case bind_err (df_getitem df column) series_unique of
             Inl e \<Rightarrow> \<lparr>result = Inl e, caller_df = df, rng = g1\<rparr>
           | Inr vals \<Rightarrow>
               (case stratify_loop be probabilities df column vals split g1 of
                  (Inl e, g2) \<Rightarrow> \<lparr>result = Inl e, caller_df = df, rng = g2\<rparr>
                | (Inr split', g2) \<Rightarrow>
                    (case split_on_series df (map IntC split') of
                       (res, df') \<Rightarrow> \<lparr>result = res, caller_df = df', rng = g2\<rparr>)))"

subsection \<open>DatetimeSplitter.split\<close>

text \<open>\<open>str(x)\<close> as an f-string field formats it.\<close>

fun show_nat :: "nat \<Rightarrow> string" where
  "show_nat n =
     (if n < 10 then [''0123456789'' ! n]
      else show_nat (n div 10) @ [''0123456789'' ! (n mod 10)])"

definition show_int :: "int \<Rightarrow> string" where
  "show_int i = (if i < 0 then CHR ''-'' # show_nat (nat (- i)) else show_nat (nat i))"

fun join_comma :: "string list \<Rightarrow> string" where
  "join_comma [] = []"
| "join_comma [x] = x"
| "join_comma (x # y # zs) = x @ '', '' @ join_comma (y # zs)"

fun py_str :: "cell \<Rightarrow> string" where
  "py_str (IntC i) = show_int i"
| "py_str (StrC s) = s"
| "py_str (ListC xs) = ''['' @ join_comma (map show_int xs) @ '']''"

text \<open>\<open>len(x)\<close> and \<open>x[i]\<close>: a number has neither; an item of a string is a string.\<close>

fun py_len :: "cell \<Rightarrow> error + nat" where
  "py_len (IntC i) = Inl TypeError"
| "py_len (StrC s) = Inr (length s)"
| "py_len (ListC xs) = Inr (length xs)"

fun py_getitem :: "cell \<Rightarrow> int \<Rightarrow> error + cell" where
  "py_getitem (IntC n) i = Inl TypeError"
| "py_getitem (StrC s) i = bind_err (py_index s i) (\<lambda>ch. Inr (StrC [ch]))"
| "py_getitem (ListC xs) i = bind_err (py_index xs i) (\<lambda>v. Inr (IntC v))"

text \<open>
  The nested function of \<open>DatetimeSplitter.split\<close>. Its test is
  \<open>not isinstance(x, list) and len(x) != 9\<close>; \<open>and\<close> evaluates \<open>len(x)\<close> only when
  \<open>x\<close> is not a list.
\<close>

definition list_to_date_str :: "cell \<Rightarrow> error + cell" where
  "list_to_date_str x =
     bind_err (if \<not> is_list x then bind_err (py_len x) (\<lambda>n. Inr (n \<noteq> 9)) else Inr False)
       (\<lambda>as_is.
          if as_is then Inr x
          else
            bind_err (py_getitem x 0) (\<lambda>x0.
            bind_err (py_getitem x 1) (\<lambda>x1.
            bind_err (py_getitem x 2) (\<lambda>x2.
            bind_err (py_getitem x 5) (\<lambda>x5.
            bind_err (py_getitem x 6) (\<lambda>x6.
            bind_err (py_getitem x 7) (\<lambda>x7.
              Inr (StrC (py_str x0 @ ''-'' @ py_str x1 @ ''-'' @ py_str x2 @ '' '' @
                         py_str x5 @ '':'' @ py_str x6 @ '':'' @ py_str x7)))))))))"

text \<open>\<open>backend.df_engine.map_objects(series, fn)\<close>: \<open>fn\<close> on every value, in order.\<close>

fun map_objects :: "('a \<Rightarrow> error + 'b) \<Rightarrow> 'a list \<Rightarrow> error + 'b list" where
  "map_objects f [] = Inr []"
| "map_objects f (x # xs) =
     (case f x of
        Inl e \<Rightarrow> Inl e
      | Inr y \<Rightarrow> (case map_objects f xs of Inl e \<Rightarrow> Inl e | Inr ys \<Rightarrow> Inr (y # ys)))"

text \<open>
  Attribute lookup on a splitter instance: the attributes are the ones \<open>__init__\<close>
  stores; any other name that is not a method of the class is an AttributeError.
\<close>

datatype pyattr = AttrStr string | AttrProbs "real list" | AttrOptStr "string option"

fun splitter_getattr :: "splitter \<Rightarrow> string \<Rightarrow> error + pyattr" where
  "splitter_getattr (RandomSplitter ps) a =
     (if a = ''probabilities'' then Inr (AttrProbs ps) else Inl (AttributeError a))"
| "splitter_getattr (FixedSplitter c) a =
     (if a = ''column'' then Inr (AttrStr c) else Inl (AttributeError a))"
| "splitter_getattr (StratifySplitter c ps) a =
     (if a = ''column'' then Inr (AttrStr c)
      else if a = ''probabilities'' then Inr (AttrProbs ps)
      else Inl (AttributeError a))"
| "splitter_getattr (DatetimeSplitter c ps f v) a =
     (if a = ''column'' then Inr (AttrStr c)
      else if a = ''probabilities'' then Inr (AttrProbs ps)
      else if a = ''datetime_format'' then Inr (AttrOptStr f)
      else if a = ''fill_value'' then Inr (AttrStr v)
      else Inl (AttributeError a))"

text \<open>\<open>df[key]\<close> where the key is whatever the attribute held.\<close>

definition df_getitem_attr :: "dataframe \<Rightarrow> pyattr \<Rightarrow> error + cell list" where
  "df_getitem_attr df k = (case k of AttrStr c \<Rightarrow> df_getitem df c | _ \<Rightarrow> Inl TypeError)"

text \<open>\<open>df.sort_values(TMP_SPLIT_COL)\<close>, the column holding the given integers.\<close>

definition sort_by_keys :: "int list \<Rightarrow> dataframe \<Rightarrow> dataframe" where
  "sort_by_keys keys df = df\<lparr>rows := map snd (sort_key fst (zip keys (rows df)))\<rparr>"

text \<open>
  The statements of \<open>DatetimeSplitter.split\<close> in order. The first one reads
  \<open>self.col\<close>. Both assignments to \<open>df[TMP_SPLIT_COL]\<close> write into the caller's object;
  \<open>sort_values\<close> and \<open>drop\<close> return new frames.
\<close>

definition DatetimeSplitter_split :: "backend \<Rightarrow> splitter \<Rightarrow> dataframe \<Rightarrow> int \<Rightarrow> rng_state \<Rightarrow> outcome" where
  "DatetimeSplitter_split be self df random_seed g =
     (case bind_err (bind_err (splitter_getattr self ''col'') (df_getitem_attr df))
             (map_objects list_to_date_str) of
        Inl e \<Rightarrow> \<lparr>result = Inl e, caller_df = df, rng = g\<rparr>
      | Inr strs \<Rightarrow>
          (case df_setitem df TMP_SPLIT_COL strs of
             Inl e \<Rightarrow> \<lparr>result = Inl e, caller_df = df, rng = g\<rparr>
           | Inr df1 \<Rightarrow>
               (case bind_err (bind_err (df_getitem df1 TMP_SPLIT_COL) (to_datetime be))
                       (\<lambda>ints. bind_err (df_setitem df1 TMP_SPLIT_COL (map IntC ints))
                          (\<lambda>df2. Inr (ints, df2))) of
                  Inl e \<Rightarrow> \<lparr>result = Inl e, caller_df = df1, rng = g\<rparr>
                | Inr (ints, df2) \<Rightarrow>
                    \<lparr>result =
                       bind_err (df_drop (sort_by_keys ints df2) TMP_SPLIT_COL) (\<lambda>sorted.
                         engine_split be sorted (ds_probabilities self)),
                     caller_df = df2, rng = g\<rparr>)))"

subsection \<open>Dispatch and the orchestrator\<close>

text \<open>
  \<open>splitter.split(df, backend, random_seed)\<close> on what \<open>get_splitter\<close> handed back; an
  exception object has no attribute \<open>split\<close>.
\<close>

fun Splitter_split :: "backend \<Rightarrow> splitter \<Rightarrow> dataframe \<Rightarrow> int \<Rightarrow> rng_state \<Rightarrow> outcome" where
  "Splitter_split be (RandomSplitter ps) df seed g = RandomSplitter_split be ps df seed g"
| "Splitter_split be (FixedSplitter c) df seed g = FixedSplitter_split be c df seed g"
| "Splitter_split be (StratifySplitter c ps) df seed g = StratifySplitter_split be c ps df seed g"
| "Splitter_split be (DatetimeSplitter c ps f v) df seed g =
     DatetimeSplitter_split be (DatetimeSplitter c ps f v) df seed g"

fun obj_split :: "backend \<Rightarrow> pyobj \<Rightarrow> dataframe \<Rightarrow> int \<Rightarrow> rng_state \<Rightarrow> outcome" where
  "obj_split be (SplitterObj s) df seed g = Splitter_split be s df seed g"
| "obj_split be (ExcObj e) df seed g =
     \<lparr>result = Inl (AttributeError ''split''), caller_df = df, rng = g\<rparr>"

definition split_warning :: string where
  \<open>split_warning =
     ''Detected "split" column in the data, but using default split type "random". Did you mean to set split type to "fixed"?''\<close>

text \<open>
  \<open>split_dataset\<close>: the global preprocessing parameters are a dict, of which only the
  key "split" is read. The first component of the result lists the warnings emitted.
\<close>

definition split_dataset ::
  "registry \<Rightarrow> backend \<Rightarrow> dataframe \<Rightarrow> (string \<rightharpoonup> split_config) \<Rightarrow> int \<Rightarrow> rng_state \<Rightarrow>
   string list \<times> outcome" where
  "split_dataset reg be df global_preprocessing_parameters random_seed g =
     (let warned =
            (if global_preprocessing_parameters ''split'' = None \<and> df_contains SPLIT df
             then [split_warning] else []);
          kw = (case global_preprocessing_parameters ''split'' of
                  None \<Rightarrow> empty_config | Some kw \<Rightarrow> kw)
      in case get_splitter reg kw of
           Inl e \<Rightarrow> (warned, \<lparr>result = Inl e, caller_df = df, rng = g\<rparr>)
         | Inr splitter \<Rightarrow> (warned, obj_split be splitter df random_seed g))"

subsection \<open>Preconditions and sample inputs\<close>


text \<open>
  An in-memory backend to run the model on: \<open>sample\<close> returns the rows in reverse
  order, \<open>choice\<close> deals 0, 1, 2 in turn; the operations of a partitioned engine are
  not available. \<open>partitioned_backend\<close> is the same with the flag set.
\<close>

definition local_backend :: backend where
  "local_backend =
     \<lparr>partitioned = False,
      random_split = (\<lambda>df ps seed. Inl TypeError),
      permutation = (\<lambda>seed n. rev [0..<n]),
      choice = (\<lambda>ps k g. Inr (map (\<lambda>j. int ((rng_drawn g + j) mod 3)) [0..<k],
                                g\<lparr>rng_drawn := rng_drawn g + k\<rparr>)),
      to_datetime = (\<lambda>vs. Inl TypeError),
      engine_split = (\<lambda>df ps. Inl TypeError)\<rparr>"

definition partitioned_backend :: backend where
  "partitioned_backend = local_backend\<lparr>partitioned := True\<rparr>"

text \<open>Four rows with a fold label in column "split".\<close>

definition labelled_df :: dataframe where
  "labelled_df =
     \<lparr>columns = [''C'', ''split''],
      rows = [(0, [(''C'', IntC 10), (''split'', IntC 0)]),
              (1, [(''C'', IntC 90), (''split'', IntC 2)]),
              (2, [(''C'', IntC 70), (''split'', IntC 1)]),
              (3, [(''C'', IntC 20), (''split'', IntC 0)])]\<rparr>"

text \<open>One row of a dataset that has a column of its own under the scratch name.\<close>

definition scratch_named_df :: dataframe where
  "scratch_named_df =
     \<lparr>columns = [''split'', ''__SPLIT__''],
      rows = [(0, [(''split'', IntC 0), (''__SPLIT__'', StrC ''a'')])]\<rparr>"

subsection \<open>Auxiliary notions for the properties\<close>

text \<open>The classes whose \<open>split\<close> ends in a call of \<open>_split_on_series\<close>.\<close>

fun uses_split_on_series :: "splitter \<Rightarrow> bool" where
  "uses_split_on_series (RandomSplitter ps) = False"
| "uses_split_on_series (FixedSplitter c) = True"
| "uses_split_on_series (StratifySplitter c ps) = True"
| "uses_split_on_series (DatetimeSplitter c ps f v) = False"


text \<open>A dataset of n rows with the default index.\<close>

definition numbered_rows :: "nat \<Rightarrow> dataframe" where
  "numbered_rows n =
     \<lparr>columns = [''A''], rows = map (\<lambda>i. (int i, [(''A'', IntC (int i))])) [0..<n]\<rparr>"

text \<open>The numbers of rows of the three outputs of a split that returned three frames.\<close>

definition fold_sizes :: "error + folds \<Rightarrow> (nat \<times> nat \<times> nat) option" where
  "fold_sizes r =
     (case r of
        Inr (Some a, Some b, Some c) \<Rightarrow> Some (df_len a, df_len b, df_len c)
      | _ \<Rightarrow> None)"



section \<open>Properties\<close>

subsection \<open>Rows, columns and slices\<close>

lemma py_slice_length:
  "0 \<le> st \<Longrightarrow> st \<le> en \<Longrightarrow> en \<le> int (length xs) \<Longrightarrow>
   length (py_slice xs st en) = nat (en - st)"
  by (simp add: py_slice_def slice_bound_def Let_def)

lemma df_len_slice:
  "0 \<le> st \<Longrightarrow> st \<le> en \<Longrightarrow> en \<le> int (df_len df) \<Longrightarrow>
   df_len (df_slice df st en) = nat (en - st)"
  by (simp add: df_len_def df_slice_def py_slice_length)

lemma py_int_nonneg: "0 \<le> x \<Longrightarrow> py_int x = \<lfloor>x\<rfloor>"
  by (simp add: py_int_def)

lemma row_cell_row_set: "row_cell (row_set c v r) c = v"
  by (simp add: row_cell_def row_set_def update_conv')

lemma row_drop_row_set: "row_drop c (row_set c v r) = row_drop c r"
  by (simp add: row_drop_def row_set_def delete_update_same)

lemma row_drop_id: "c \<notin> set (map fst (snd r)) \<Longrightarrow> row_drop c r = r"
  by (cases r) (simp add: row_drop_def delete_id)

lemma row_drop_keys: "c \<notin> fst ` set (snd (row_drop c r))"
  by (simp add: row_drop_def delete_keys flip: set_map)

lemma df_setitem_ok:
  "length vs = length (rows df) \<Longrightarrow>
   df_setitem df c vs =
     Inr \<lparr>columns = (if c \<in> set (columns df) then columns df else columns df @ [c]),
          rows = map (\<lambda>(v, r). row_set c v r) (zip vs (rows df))\<rparr>"
  by (simp add: df_setitem_def)

lemma filter_set_rows:
  "filter (\<lambda>r. row_cell r c = x) (map (\<lambda>(v, r). row_set c v r) ps) =
   map (\<lambda>(v, r). row_set c v r) (filter (\<lambda>(v, r). v = x) ps)"
  by (induction ps) (auto simp: row_cell_row_set)

lemma drop_set_rows:
  "map (row_drop c) (map (\<lambda>(v, r). row_set c v r) ps) = map (\<lambda>(v, r). row_drop c r) ps"
  by (induction ps) (auto simp: row_drop_row_set)

lemma zip_map_self: "zip (map f xs) xs = map (\<lambda>x. (f x, x)) xs"
  by (induction xs) auto

lemma df_wf_row_keys:
  "df_wf df \<Longrightarrow> r \<in> set (rows df) \<Longrightarrow> map fst (snd r) = columns df"
  by (simp add: df_wf_def list_all_iff)

lemma mset_three_filters:
  "\<forall>x\<in>set xs. f x = a \<or> f x = b \<or> f x = c \<Longrightarrow> a \<noteq> b \<Longrightarrow> a \<noteq> c \<Longrightarrow> b \<noteq> c \<Longrightarrow>
   mset (filter (\<lambda>x. f x = a) xs @ filter (\<lambda>x. f x = b) xs @ filter (\<lambda>x. f x = c) xs) =
   mset xs"
  by (induction xs) auto

text \<open>
  What \<open>_split_on_series\<close> computes when the series has one value per row: fold i holds
  the rows labelled i, each without the scratch column, and the caller's frame has
  gained the scratch column.
\<close>

lemma split_on_series_ok:
  assumes "length vs = length (rows df)"
  shows "split_on_series df vs =
     (Inr (Some \<lparr>columns = removeAll TMP_SPLIT_COL (columns df),
                  rows = map (\<lambda>(v, r). row_drop TMP_SPLIT_COL r)
                           (filter (\<lambda>(v, r). v = IntC 0) (zip vs (rows df)))\<rparr>,
           Some \<lparr>columns = removeAll TMP_SPLIT_COL (columns df),
                  rows = map (\<lambda>(v, r). row_drop TMP_SPLIT_COL r)
                           (filter (\<lambda>(v, r). v = IntC 1) (zip vs (rows df)))\<rparr>,
           Some \<lparr>columns = removeAll TMP_SPLIT_COL (columns df),
                  rows = map (\<lambda>(v, r). row_drop TMP_SPLIT_COL r)
                           (filter (\<lambda>(v, r). v = IntC 2) (zip vs (rows df)))\<rparr>),
      \<lparr>columns = (if TMP_SPLIT_COL \<in> set (columns df) then columns df
                   else columns df @ [TMP_SPLIT_COL]),
       rows = map (\<lambda>(v, r). row_set TMP_SPLIT_COL v r) (zip vs (rows df))\<rparr>)"
  using assms
  by (simp add: split_on_series_def df_setitem_ok split_dataset_ttv_def bind_err_def
      drop_if_not_None_def df_drop_def df_where_eq_def filter_set_rows drop_set_rows
      row_drop_row_set)

subsection \<open>DatetimeSplitter\<close>

text \<open>
  C2. The claim is that \<open>DatetimeSplitter.split\<close> returns three folds in chronological
  order that partition the input. The first statement of the method reads \<open>self.col\<close>,
  an attribute the class never sets (\<open>__init__\<close> stores \<open>self.column\<close>): on every
  dataset, backend and seed the call raises AttributeError before it has read or written
  anything, so it returns no folds at all.
\<close>

theorem DatetimeSplitter_split_raises:
  "DatetimeSplitter_split be (DatetimeSplitter c ps f v) df seed g =
     \<lparr>result = Inl (AttributeError ''col''), caller_df = df, rng = g\<rparr>"
  by (simp add: DatetimeSplitter_split_def bind_err_def)

text \<open>
  C6. The claim is that a 9-element component list becomes the string built from
  components 0, 1, 2 and 5, 6, 7 and that every other value is left as it is. The test
  in the source joins its two conditions with \<open>and\<close>, so a value is left as it is only
  when it is not a list and its length is not 9: the 9-character date string
  "2020-1-15" is taken apart character by character.
\<close>

theorem list_to_date_str_nine_characters:
  "list_to_date_str (StrC ''2020-1-15'') = Inr (StrC ''2-0-2 1:-:1'')"
  by (simp add: list_to_date_str_def bind_err_def py_index_def)

text \<open>The half of C6 that holds: a 9-element list is rebuilt from its components.\<close>

lemma list_to_date_str_components:
  "list_to_date_str (ListC [y, m, d, wd, yd, h, mi, s, sd]) =
     Inr (StrC (show_int y @ ''-'' @ show_int m @ ''-'' @ show_int d @ '' '' @
                show_int h @ '':'' @ show_int mi @ '':'' @ show_int s))"
  by (simp add: list_to_date_str_def bind_err_def py_index_def)

text \<open>Other values that are not left as they are: a number, and lists of other lengths.\<close>

lemma list_to_date_str_number: "list_to_date_str (IntC 5) = Inl TypeError"
  by (simp add: list_to_date_str_def bind_err_def)

lemma list_to_date_str_short_list: "list_to_date_str (ListC [2020, 1, 15]) = Inl IndexError"
  by (simp add: list_to_date_str_def bind_err_def py_index_def)

lemma list_to_date_str_eight:
  "list_to_date_str (ListC [2020, 1, 15, 4, 5, 6, 7, 8]) = Inr (StrC ''2020-1-15 6:7:8'')"
  by (simp add: list_to_date_str_def bind_err_def py_index_def show_int_def)

subsection \<open>StratifySplitter on a partitioned backend\<close>

text \<open>
  C7. For every dataset, column, probabilities and seed, \<open>StratifySplitter.split\<close> on a
  partitioned backend raises ValueError with the message naming the "stratify" split
  type and the partitioned dataset, and has done nothing else: the caller's dataframe
  and the random state are the ones it was called with.
\<close>

theorem stratify_partitioned_raises:
  "partitioned be \<Longrightarrow>
   StratifySplitter_split be column probabilities df random_seed g =
     \<lparr>result = Inl (ValueError stratify_message), caller_df = df, rng = g\<rparr>"
  by (simp add: StratifySplitter_split_def)

theorem stratify_partitioned_raises_witness:
  "partitioned partitioned_backend \<and>
   StratifySplitter_split partitioned_backend ''C'' DEFAULT_PROBABILITIES labelled_df 42
       (set_random_seed 7) =
     \<lparr>result = Inl (ValueError stratify_message), caller_df = labelled_df,
      rng = set_random_seed 7\<rparr>"
  using stratify_partitioned_raises
    [of partitioned_backend "''C''" DEFAULT_PROBABILITIES labelled_df 42 "set_random_seed 7"]
  by (simp add: partitioned_backend_def)

subsection \<open>Rounding to a double\<close>

lemma round_half_even_error: "\<bar>of_int (round_half_even y) - y\<bar> \<le> 1 / 2"
  unfolding round_half_even_def Let_def by (auto; linarith)

lemma round_half_even_nonneg: "0 \<le> y \<Longrightarrow> 0 \<le> round_half_even y"
  unfolding round_half_even_def Let_def by (auto; linarith)

lemma round_half_even_of_int: "round_half_even (of_int k) = k"
  by (simp add: round_half_even_def)

lemma pow2_pos: "0 < pow2 k"
  by (simp add: pow2_def)

lemma pow2_le_half: "k \<le> - 1 \<Longrightarrow> pow2 k \<le> 1 / 2"
proof -
  assume "k \<le> - 1"
  then have "1 \<le> nat (- k)" by simp
  then have "(2::real) ^ 1 \<le> 2 ^ nat (- k)" by (intro power_increasing) simp_all
  with \<open>k \<le> - 1\<close> show ?thesis by (simp add: pow2_def field_simps)
qed

lemma bit_length_le: "n < 2 ^ k \<Longrightarrow> bit_length n \<le> k"
proof (induction k arbitrary: n)
  case 0
  then show ?case by (simp add: bit_length.simps)
next
  case (Suc k)
  then have "n div 2 < 2 ^ k" by simp
  from Suc.IH [OF this] show ?case by (subst bit_length.simps) simp
qed

lemma float_exponent_le:
  assumes "0 < x" "x < 2 ^ k"
  shows "float_exponent x \<le> int k - 1 \<or> float_exponent x \<le> 0"
proof (cases "1 \<le> x")
  case True
  have "\<lfloor>x\<rfloor> < 2 ^ k" using assms(2) by (simp add: floor_less_iff)
  then have "nat \<lfloor>x\<rfloor> < 2 ^ k" using True by (simp add: nat_less_iff)
  then have "bit_length (nat \<lfloor>x\<rfloor>) \<le> k" by (rule bit_length_le)
  then show ?thesis using True by (simp add: float_exponent_def)
next
  case False
  then show ?thesis by (simp add: float_exponent_def)
qed

lemma py_float_error:
  assumes "0 \<le> x" "x < 2 ^ 52"
  shows "\<bar>py_float x - x\<bar> \<le> 1 / 4"
proof (cases "x = 0")
  case True
  then show ?thesis by (simp add: py_float_def)
next
  case False
  with assms have pos: "0 < x" by simp
  define u where "u = pow2 (max (float_exponent \<bar>x\<bar>) (- 1022) - 52)"
  have up: "0 < u" unfolding u_def by (rule pow2_pos)
  have "float_exponent x \<le> 51" using float_exponent_le [OF pos assms(2)] by auto
  then have "max (float_exponent \<bar>x\<bar>) (- 1022) - 52 \<le> - 1" using pos by simp
  then have uh: "u \<le> 1 / 2" unfolding u_def by (rule pow2_le_half)
  have val: "py_float x = of_int (round_half_even (x / u)) * u"
    using pos by (simp add: py_float_def u_def Let_def)
  have "of_int (round_half_even (x / u)) * u - x = (of_int (round_half_even (x / u)) - x / u) * u"
    using up by (simp add: field_simps)
  then have "\<bar>of_int (round_half_even (x / u)) * u - x\<bar> =
      \<bar>of_int (round_half_even (x / u)) - x / u\<bar> * u"
    using up by (simp add: abs_mult)
  also have "\<dots> \<le> 1 / 2 * u"
    using up round_half_even_error [of "x / u"] by (intro mult_right_mono) simp_all
  also have "\<dots> \<le> 1 / 4" using uh by simp
  finally show ?thesis unfolding val .
qed

lemma py_float_nonneg: "0 \<le> x \<Longrightarrow> 0 \<le> py_float x"
  by (cases "x = 0")
    (auto simp: py_float_def Let_def pow2_pos less_imp_le round_half_even_nonneg
      intro!: mult_nonneg_nonneg)

lemma py_float_nat:
  assumes "n < 2 ^ 53"
  shows "py_float (real n) = real n"
proof (cases "n = 0")
  case True
  then show ?thesis by (simp add: py_float_def)
next
  case False
  then have one: "1 \<le> real n" by simp
  have "bit_length n \<le> 53" using assms by (rule bit_length_le)
  then have e: "float_exponent (real n) \<le> 52" using one by (simp add: float_exponent_def)
  have "1 \<le> bit_length n" using False by (subst bit_length.simps) simp
  then have e0: "0 \<le> float_exponent (real n)"
    using one by (simp add: float_exponent_def)
  define m where "m = nat (52 - float_exponent (real n))"
  have u: "pow2 (max (float_exponent (real n)) (- 1022) - 52) = 1 / 2 ^ m"
    using e e0 by (auto simp: pow2_def m_def max_def)
  have "real n / (1 / 2 ^ m) = of_int (int n * 2 ^ m)" by simp
  then have r: "round_half_even (real n / (1 / 2 ^ m)) = int n * 2 ^ m"
    by (simp only: round_half_even_of_int)
  have "py_float (real n) = of_int (round_half_even (real n / (1 / 2 ^ m))) * (1 / 2 ^ m)"
    using False by (simp add: py_float_def Let_def u)
  also have "\<dots> = real n" unfolding r by simp
  finally show ?thesis .
qed

lemma default_probabilities_values:
  "DEFAULT_PROBABILITIES =
     [3152519739159347 / 4503599627370496, 3602879701896397 / 36028797018963968,
      3602879701896397 / 18014398509481984]"
  by (simp add: DEFAULT_PROBABILITIES_def py_float_def float_exponent_def pow2_def
      round_half_even_def Let_def bit_length.simps)

lemma df_len_numbered_rows: "df_len (numbered_rows n) = n"
  by (simp add: df_len_def numbered_rows_def)

text \<open>The cut points d1 and d2, when they are in order and within the frame.\<close>

lemma random_split_fold_sizes:
  assumes "\<not> partitioned be"
    and "0 \<le> float_mul_int p0 (df_len df)" "0 \<le> float_mul_int p1 (df_len df)"
    and "\<lfloor>float_mul_int p0 (df_len df)\<rfloor> + \<lfloor>float_mul_int p1 (df_len df)\<rfloor> \<le> int (df_len df)"
    and "length (permutation be seed (df_len df)) = df_len df"
  shows "\<exists>train val test.
     result (RandomSplitter_split be [p0, p1, p2] df seed g) =
       Inr (Some train, Some val, Some test) \<and>
     int (df_len train) = \<lfloor>float_mul_int p0 (df_len df)\<rfloor> \<and>
     int (df_len val) = \<lfloor>float_mul_int p1 (df_len df)\<rfloor> \<and>
     int (df_len test) =
       int (df_len df) - \<lfloor>float_mul_int p0 (df_len df)\<rfloor> - \<lfloor>float_mul_int p1 (df_len df)\<rfloor> \<and>
     df_len train + df_len val + df_len test = df_len df"
proof -
  define n where "n = df_len df"
  define a where "a = \<lfloor>float_mul_int p0 n\<rfloor>"
  define b where "b = \<lfloor>float_mul_int p1 n\<rfloor>"
  define sh where "sh = df_sample be df seed"
  have a0: "0 \<le> a" using assms(2) by (simp add: a_def n_def)
  have b0: "0 \<le> b" using assms(3) by (simp add: b_def n_def)
  have ab: "a + b \<le> int n" using assms(4) by (simp add: a_def b_def n_def)
  have len: "df_len sh = n"
    using assms(5) by (simp add: df_sample_def n_def sh_def df_len_def)
  have res: "result (RandomSplitter_split be [p0, p1, p2] df seed g) =
      Inr (np_split sh a (a + b))"
    using assms(1-3)
    by (simp add: RandomSplitter_split_def Let_def bind_err_def py_index_def py_int_nonneg
        a_def b_def n_def sh_def)
  have l1: "df_len (df_slice sh 0 a) = nat a"
    using a0 b0 ab len by (simp add: df_len_slice)
  have l2: "df_len (df_slice sh a (a + b)) = nat b"
    using a0 b0 ab len by (simp add: df_len_slice)
  have l3: "df_len (df_slice sh (a + b) (int (df_len sh))) = nat (int n - a - b)"
    using a0 b0 ab len by (simp add: df_len_slice algebra_simps)
  show ?thesis
    unfolding res np_split_def
    using a0 b0 ab l1 l2 l3
    by (simp add: a_def [symmetric] b_def [symmetric] n_def [symmetric])
qed


lemma float_mul_int_small: "n < 2 ^ 53 \<Longrightarrow> float_mul_int p n = py_float (p * real n)"
  by (simp add: float_mul_int_def float_mul_def py_float_nat)

lemma floor_mul_90_train: "\<lfloor>float_mul_int (3152519739159347 / 4503599627370496) 90\<rfloor> = 62"
  by (simp add: float_mul_int_def float_mul_def py_float_def float_exponent_def pow2_def
      round_half_even_def Let_def bit_length.simps)

lemma floor_mul_90_val: "\<lfloor>float_mul_int (3602879701896397 / 36028797018963968) 90\<rfloor> = 9"
  by (simp add: float_mul_int_def float_mul_def py_float_def float_exponent_def pow2_def
      round_half_even_def Let_def bit_length.simps)

lemma floor_mul_10_train: "\<lfloor>float_mul_int (3152519739159347 / 4503599627370496) 10\<rfloor> = 7"
  by (simp add: float_mul_int_def float_mul_def py_float_def float_exponent_def pow2_def
      round_half_even_def Let_def bit_length.simps)

lemma floor_mul_10_val: "\<lfloor>float_mul_int (3602879701896397 / 36028797018963968) 10\<rfloor> = 1"
  by (simp add: float_mul_int_def float_mul_def py_float_def float_exponent_def pow2_def
      round_half_even_def Let_def bit_length.simps)

lemma floor_mul_4_train: "\<lfloor>float_mul_int (3152519739159347 / 4503599627370496) 4\<rfloor> = 2"
  by (simp add: float_mul_int_def float_mul_def py_float_def float_exponent_def pow2_def
      round_half_even_def Let_def bit_length.simps)

lemma floor_mul_4_val: "\<lfloor>float_mul_int (3602879701896397 / 36028797018963968) 4\<rfloor> = 0"
  by (simp add: float_mul_int_def float_mul_def py_float_def float_exponent_def pow2_def
      round_half_even_def Let_def bit_length.simps)

lemma local_permutation_length: "length (permutation local_backend seed n) = n"
  by (simp add: local_backend_def)

lemma local_not_partitioned: "\<not> partitioned local_backend"
  by (simp add: local_backend_def)

lemma float_mul_int_nonneg: "0 \<le> p \<Longrightarrow> 0 \<le> float_mul_int p n"
  by (simp add: float_mul_int_def float_mul_def py_float_nonneg)

lemma default_fold_sizes:
  assumes "\<lfloor>float_mul_int (3152519739159347 / 4503599627370496) n\<rfloor> = a"
    and "\<lfloor>float_mul_int (3602879701896397 / 36028797018963968) n\<rfloor> = b"
    and "a + b \<le> int n"
  shows "fold_sizes (result (RandomSplitter_split local_backend DEFAULT_PROBABILITIES
           (numbered_rows n) seed g)) = Some (nat a, nat b, n - nat a - nat b)"
proof -
  let ?p0 = "3152519739159347 / 4503599627370496 :: real"
  let ?p1 = "3602879701896397 / 36028797018963968 :: real"
  let ?p2 = "3602879701896397 / 18014398509481984 :: real"
  have "\<exists>train val test.
     result (RandomSplitter_split local_backend [?p0, ?p1, ?p2] (numbered_rows n) seed g) =
       Inr (Some train, Some val, Some test) \<and>
     int (df_len train) = \<lfloor>float_mul_int ?p0 (df_len (numbered_rows n))\<rfloor> \<and>
     int (df_len val) = \<lfloor>float_mul_int ?p1 (df_len (numbered_rows n))\<rfloor> \<and>
     int (df_len test) =
       int (df_len (numbered_rows n)) - \<lfloor>float_mul_int ?p0 (df_len (numbered_rows n))\<rfloor> -
         \<lfloor>float_mul_int ?p1 (df_len (numbered_rows n))\<rfloor> \<and>
     df_len train + df_len val + df_len test = df_len (numbered_rows n)"
    using assms
    by (intro random_split_fold_sizes local_not_partitioned local_permutation_length
        float_mul_int_nonneg) (simp_all add: df_len_numbered_rows)
  then obtain train val test where
    r: "result (RandomSplitter_split local_backend [?p0, ?p1, ?p2] (numbered_rows n) seed g) =
       Inr (Some train, Some val, Some test)"
    and "int (df_len train) = a" "int (df_len val) = b" "int (df_len test) = int n - a - b"
    using assms by (auto simp: df_len_numbered_rows)
  then have "df_len train = nat a" "df_len val = nat b" "df_len test = n - nat a - nat b"
    by linarith+
  with r show ?thesis by (simp add: fold_sizes_def default_probabilities_values)
qed

subsection \<open>RandomSplitter fold sizes\<close>

text \<open>
  C4, as stated, fails: the cut points are truncated float products, not floors of real
  products. With the default probabilities (0.7, 0.1, 0.2) and 90 rows the training fold
  has 62 rows, since the double product 0.7 * 90 is 62.99999999999999, while
  floor(7/10 * 90) is 63. Reading p0 as the double that the literal 0.7 denotes does not
  help: with 10 rows the training fold has 7 rows (the double product rounds to 7.0),
  while the floor of the real product of that double and 10 is 6.
\<close>

theorem random_split_sizes_counterexample:
  "(7 / 10 + 1 / 10 + 2 / 10 :: real) = 1 \<and>
   fold_sizes (result (RandomSplitter_split local_backend DEFAULT_PROBABILITIES
      (numbered_rows 90) 42 (set_random_seed 0))) = Some (62, 9, 19) \<and>
   \<lfloor>(7 / 10 :: real) * real (df_len (numbered_rows 90))\<rfloor> = 63 \<and>
   fold_sizes (result (RandomSplitter_split local_backend DEFAULT_PROBABILITIES
      (numbered_rows 10) 42 (set_random_seed 0))) = Some (7, 1, 2) \<and>
   \<lfloor>py_float (7 / 10) * real (df_len (numbered_rows 10))\<rfloor> = 6"
proof -
  have a: "fold_sizes (result (RandomSplitter_split local_backend DEFAULT_PROBABILITIES
      (numbered_rows 90) 42 (set_random_seed 0))) = Some (nat 62, nat 9, 90 - nat 62 - nat 9)"
    by (rule default_fold_sizes [OF floor_mul_90_train floor_mul_90_val]) simp
  have b: "fold_sizes (result (RandomSplitter_split local_backend DEFAULT_PROBABILITIES
      (numbered_rows 10) 42 (set_random_seed 0))) = Some (nat 7, nat 1, 10 - nat 7 - nat 1)"
    by (rule default_fold_sizes [OF floor_mul_10_train floor_mul_10_val]) simp
  have c: "py_float (7 / 10) = 3152519739159347 / 4503599627370496"
    using default_probabilities_values by (simp add: DEFAULT_PROBABILITIES_def)
  show ?thesis using a b by (simp add: df_len_numbered_rows c)
qed

text \<open>
  C4, amended. On a backend that is not partitioned, for a dataset of n rows (fewer than
  2^50) and probabilities (p0, p1, p2) that are non-negative and sum to 1 up to one unit
  in the last place of a double (as the defaults do), with a sample that returns every
  row: the training fold has exactly floor(p0 * n) rows and the validation fold
  floor(p1 * n) rows, where each product is the float product the code computes, the
  test fold has the remaining n - floor(p0 * n) - floor(p1 * n) rows, and the three sizes
  add up to n.
\<close>

theorem random_split_float_sizes:
  assumes np: "\<not> partitioned be"
    and p0: "0 \<le> p0" and p1: "0 \<le> p1" and p2: "0 \<le> p2"
    and sum: "\<bar>p0 + p1 + p2 - 1\<bar> \<le> 1 / 2 ^ 52"
    and small: "df_len df < 2 ^ 50"
    and perm: "length (permutation be seed (df_len df)) = df_len df"
  shows "\<exists>train val test.
     result (RandomSplitter_split be [p0, p1, p2] df seed g) =
       Inr (Some train, Some val, Some test) \<and>
     int (df_len train) = \<lfloor>float_mul_int p0 (df_len df)\<rfloor> \<and>
     int (df_len val) = \<lfloor>float_mul_int p1 (df_len df)\<rfloor> \<and>
     int (df_len test) =
       int (df_len df) - \<lfloor>float_mul_int p0 (df_len df)\<rfloor> - \<lfloor>float_mul_int p1 (df_len df)\<rfloor> \<and>
     df_len train + df_len val + df_len test = df_len df"
proof -
  define n where "n = df_len df"
  have n50: "real n < 2 ^ 50" using small unfolding n_def
    by (metis of_nat_less_iff of_nat_numeral of_nat_power)
  have n53: "n < 2 ^ 53"
  proof -
    have "(2::nat) ^ 50 \<le> 2 ^ 53" by (intro power_increasing) simp_all
    with small show ?thesis unfolding n_def by linarith
  qed
  have m0: "float_mul_int p0 n = py_float (p0 * real n)"
    and m1: "float_mul_int p1 n = py_float (p1 * real n)"
    using n53 by (simp_all add: float_mul_int_small)
  have s01: "p0 + p1 \<le> 1 + 1 / 2 ^ 52" using sum p2 by linarith
  have x0: "0 \<le> p0 * real n" and x1: "0 \<le> p1 * real n" using p0 p1 by simp_all
  have tot: "p0 * real n + p1 * real n \<le> real n + real n / 2 ^ 52"
  proof -
    have "(p0 + p1) * real n \<le> (1 + 1 / 2 ^ 52) * real n"
      using s01 by (intro mult_right_mono) simp_all
    then show ?thesis by (simp add: algebra_simps)
  qed
  have frac: "real n / 2 ^ 52 < 1 / 4"
  proof -
    have "real n / 2 ^ 52 < 2 ^ 50 / 2 ^ 52" using n50 by (intro divide_strict_right_mono) simp_all
    then show ?thesis by simp
  qed
  have b0: "p0 * real n < 2 ^ 52" and b1: "p1 * real n < 2 ^ 52"
  proof -
    have "real n + real n / 2 ^ 52 < 2 ^ 52" using n50 frac by simp
    with tot x0 x1 show "p0 * real n < 2 ^ 52" "p1 * real n < 2 ^ 52" by linarith+
  qed
  have e0: "\<bar>py_float (p0 * real n) - p0 * real n\<bar> \<le> 1 / 4" by (rule py_float_error [OF x0 b0])
  have e1: "\<bar>py_float (p1 * real n) - p1 * real n\<bar> \<le> 1 / 4" by (rule py_float_error [OF x1 b1])
  have nn0: "0 \<le> float_mul_int p0 n" unfolding m0 by (rule py_float_nonneg [OF x0])
  have nn1: "0 \<le> float_mul_int p1 n" unfolding m1 by (rule py_float_nonneg [OF x1])
  have "real_of_int (\<lfloor>float_mul_int p0 n\<rfloor> + \<lfloor>float_mul_int p1 n\<rfloor>) \<le>
      py_float (p0 * real n) + py_float (p1 * real n)"
    unfolding m0 m1 by simp linarith
  also have "\<dots> \<le> p0 * real n + p1 * real n + 1 / 2" using e0 e1 by linarith
  also have "\<dots> < real n + 1" using tot frac by linarith
  finally have "\<lfloor>float_mul_int p0 n\<rfloor> + \<lfloor>float_mul_int p1 n\<rfloor> < int n + 1"
    by (metis of_int_1 of_int_add of_int_less_iff of_int_of_nat_eq)
  then have le: "\<lfloor>float_mul_int p0 n\<rfloor> + \<lfloor>float_mul_int p1 n\<rfloor> \<le> int n" by simp
  show ?thesis
    using np nn0 nn1 le perm unfolding n_def by (rule random_split_fold_sizes)
qed

theorem random_split_float_sizes_witness:
  "\<not> partitioned local_backend \<and> 0 \<le> py_float (7 / 10) \<and> 0 \<le> py_float (1 / 10) \<and>
   0 \<le> py_float (2 / 10) \<and>
   \<bar>py_float (7 / 10) + py_float (1 / 10) + py_float (2 / 10) - 1\<bar> \<le> 1 / 2 ^ 52 \<and>
   df_len labelled_df < 2 ^ 50 \<and>
   length (permutation local_backend 42 (df_len labelled_df)) = df_len labelled_df \<and>
   (\<exists>train val test.
      result (RandomSplitter_split local_backend
                [py_float (7 / 10), py_float (1 / 10), py_float (2 / 10)] labelled_df 42
                (set_random_seed 0)) = Inr (Some train, Some val, Some test) \<and>
      df_len train = 2 \<and> df_len val = 0 \<and> df_len test = 2)"
proof -
  have v: "py_float (7 / 10) = 3152519739159347 / 4503599627370496"
    "py_float (1 / 10) = 3602879701896397 / 36028797018963968"
    "py_float (2 / 10) = 3602879701896397 / 18014398509481984"
    using default_probabilities_values by (simp_all add: DEFAULT_PROBABILITIES_def)
  have n: "df_len labelled_df = 4" by (simp add: df_len_def labelled_df_def)
  have h: "\<not> partitioned local_backend" "0 \<le> py_float (7 / 10)" "0 \<le> py_float (1 / 10)"
    "0 \<le> py_float (2 / 10)"
    "\<bar>py_float (7 / 10) + py_float (1 / 10) + py_float (2 / 10) - 1\<bar> \<le> 1 / 2 ^ 52"
    "df_len labelled_df < 2 ^ 50"
    "length (permutation local_backend 42 (df_len labelled_df)) = df_len labelled_df"
    unfolding v n by (simp_all add: local_not_partitioned local_permutation_length)
  from random_split_float_sizes [OF h, of "set_random_seed 0"]
  have "\<exists>train val test.
      result (RandomSplitter_split local_backend
                [py_float (7 / 10), py_float (1 / 10), py_float (2 / 10)] labelled_df 42
                (set_random_seed 0)) = Inr (Some train, Some val, Some test) \<and>
      df_len train = 2 \<and> df_len val = 0 \<and> df_len test = 2"
    unfolding n v floor_mul_4_train floor_mul_4_val by auto
  with h show ?thesis by blast
qed

subsection \<open>FixedSplitter\<close>

text \<open>
  C5, as stated, fails on a dataset that has a column of its own named \<open>__SPLIT__\<close>:
  the helper overwrites that column with the fold labels and drops it from the folds,
  so the rows of the folds are not the rows of the input.
\<close>

theorem fixed_split_scratch_name_counterexample:
  "row_cell (0, [(''split'', IntC 0), (''__SPLIT__'', StrC ''a'')]) ''split'' \<in>
     {IntC 0, IntC 1, IntC 2} \<and>
   result (FixedSplitter_split local_backend ''split'' scratch_named_df 42 (set_random_seed 0)) =
     Inr (Some \<lparr>columns = [''split''], rows = [(0, [(''split'', IntC 0)])]\<rparr>,
          Some \<lparr>columns = [''split''], rows = []\<rparr>,
          Some \<lparr>columns = [''split''], rows = []\<rparr>) \<and>
   [(0, [(''split'', IntC 0)])] @ [] @ [] \<noteq> rows scratch_named_df"
  by (simp add: FixedSplitter_split_def scratch_named_df_def df_getitem_def split_on_series_ok
      TMP_SPLIT_COL_def row_cell_def row_drop_def)

text \<open>
  C5, amended: for every rectangular dataset that has no column named \<open>__SPLIT__\<close> and
  whose configured split column holds only the values 0, 1, 2, fold i is the input
  restricted to the rows where the column equals i, in the original order and with the
  original columns, and the rows of the three folds together are the rows of the input,
  each exactly once.
\<close>

theorem fixed_split_round_trip:
  assumes wf: "df_wf df"
    and col: "column \<in> set (columns df)"
    and tmp: "TMP_SPLIT_COL \<notin> set (columns df)"
    and vals: "\<forall>r\<in>set (rows df). row_cell r column \<in> {IntC 0, IntC 1, IntC 2}"
  shows "\<exists>train val test.
     result (FixedSplitter_split be column df seed g) = Inr (Some train, Some val, Some test) \<and>
     train = df_where_eq df column 0 \<and>
     val = df_where_eq df column 1 \<and>
     test = df_where_eq df column 2 \<and>
     mset (rows train @ rows val @ rows test) = mset (rows df)"
proof -
  have keep: "map (\<lambda>(v, r). row_drop TMP_SPLIT_COL r)
        (filter (\<lambda>(v, r). v = IntC i) (zip (map (\<lambda>r. row_cell r column) (rows df)) (rows df))) =
      filter (\<lambda>r. row_cell r column = IntC i) (rows df)" for i
  proof -
    have "map (\<lambda>(v, r). row_drop TMP_SPLIT_COL r)
        (filter (\<lambda>(v, r). v = IntC i) (zip (map (\<lambda>r. row_cell r column) (rows df)) (rows df))) =
      map (row_drop TMP_SPLIT_COL) (filter (\<lambda>r. row_cell r column = IntC i) (rows df))"
      by (simp add: zip_map_self filter_map comp_def)
    also have "\<dots> = map (\<lambda>r. r) (filter (\<lambda>r. row_cell r column = IntC i) (rows df))"
    proof (rule map_cong [OF refl])
      fix r assume "r \<in> set (filter (\<lambda>r. row_cell r column = IntC i) (rows df))"
      then have "r \<in> set (rows df)" by simp
      then have "map fst (snd r) = columns df" using wf by (simp add: df_wf_row_keys)
      then show "row_drop TMP_SPLIT_COL r = r" using tmp by (simp add: row_drop_id)
    qed
    finally show ?thesis by simp
  qed
  have res: "result (FixedSplitter_split be column df seed g) =
      Inr (Some (df_where_eq df column 0), Some (df_where_eq df column 1),
           Some (df_where_eq df column 2))"
    using col tmp
    by (simp add: FixedSplitter_split_def df_getitem_def split_on_series_ok keep df_where_eq_def)
  have "mset (filter (\<lambda>r. row_cell r column = IntC 0) (rows df) @
              filter (\<lambda>r. row_cell r column = IntC 1) (rows df) @
              filter (\<lambda>r. row_cell r column = IntC 2) (rows df)) = mset (rows df)"
    using vals by (intro mset_three_filters) auto
  then show ?thesis
    unfolding res by (simp add: df_where_eq_def)
qed

theorem fixed_split_round_trip_witness:
  "df_wf labelled_df \<and> ''split'' \<in> set (columns labelled_df) \<and>
   TMP_SPLIT_COL \<notin> set (columns labelled_df) \<and>
   list_all (\<lambda>r. row_cell r ''split'' \<in> {IntC 0, IntC 1, IntC 2}) (rows labelled_df) \<and>
   result (FixedSplitter_split local_backend ''split'' labelled_df 42 (set_random_seed 0)) =
     Inr (Some \<lparr>columns = [''C'', ''split''],
                 rows = [(0, [(''C'', IntC 10), (''split'', IntC 0)]),
                         (3, [(''C'', IntC 20), (''split'', IntC 0)])]\<rparr>,
          Some \<lparr>columns = [''C'', ''split''],
                 rows = [(2, [(''C'', IntC 70), (''split'', IntC 1)])]\<rparr>,
          Some \<lparr>columns = [''C'', ''split''],
                 rows = [(1, [(''C'', IntC 90), (''split'', IntC 2)])]\<rparr>)"
  using fixed_split_round_trip
    [of labelled_df "''split''" local_backend 42 "set_random_seed 0"]
  by (simp add: labelled_df_def df_wf_def TMP_SPLIT_COL_def row_cell_def df_where_eq_def)


subsection \<open>Resolution of an unknown type name\<close>

text \<open>
  C1. The claim is that \<open>get_splitter\<close> raises on a type name that is not registered and
  never returns a value that is not a splitter. The source has \<open>return ValueError(...)\<close>:
  for every registry and every type name the registry does not know, the call returns
  normally, and what it returns is the exception object.
\<close>

theorem get_splitter_unknown_returns_exception:
  "reg (cfg_type kw) = None \<Longrightarrow>
   get_splitter reg kw =
     Inr (ExcObj (ValueError (''Invalid split type: '' @ str_of_type (cfg_type kw))))"
  by (simp add: get_splitter_def)

theorem get_splitter_unknown_returns_exception_witness:
  "split_registry (cfg_type (empty_config\<lparr>cfg_type := Some ''bogus''\<rparr>)) = None \<and>
   get_splitter split_registry (empty_config\<lparr>cfg_type := Some ''bogus''\<rparr>) =
     Inr (ExcObj (ValueError ''Invalid split type: bogus''))"
  using get_splitter_unknown_returns_exception
    [of split_registry "empty_config\<lparr>cfg_type := Some ''bogus''\<rparr>"]
  by (simp add: split_registry_def empty_config_def str_of_type_def)

subsection \<open>has_split\<close>

text \<open>
  C8, as stated, fails: a \<open>FixedSplitter\<close> stores no probabilities and inherits
  \<open>has_split\<close> from the base class. Configured with probabilities (1, 0, 0), which its
  constructor drops, it answers True for fold 1 although the probability of fold 1 is 0.
\<close>

theorem has_split_fixed_counterexample:
  "get_splitter split_registry
     (empty_config\<lparr>cfg_type := Some ''fixed'', cfg_probabilities := Some [1, 0, 0]\<rparr>) =
     Inr (SplitterObj (FixedSplitter ''split'')) \<and>
   has_split (FixedSplitter ''split'') 1 = Inr True \<and>
   \<not> (0 < [1, 0, 0 :: real] ! 1)"
  by (simp add: get_splitter_def split_registry_def empty_config_def FixedSplitter_init_def
      or_default_def SPLIT_def bind_err_def)

text \<open>
  C8, amended: for a splitter whose class stores probabilities (random, stratify,
  datetime), a 3-element probability list and a fold index in {0, 1, 2}, \<open>has_split\<close>
  is the test \<open>probabilities[i] > 0\<close>; for a fixed splitter it is True for every index.
\<close>

theorem has_split_by_variant:
  "(splitter_probabilities s = Some ps \<longrightarrow> length ps = 3 \<longrightarrow> i \<in> {0, 1, 2} \<longrightarrow>
      has_split s i = Inr (0 < ps ! nat i)) \<and>
   (splitter_probabilities s = None \<longrightarrow> has_split s i = Inr True)"
  by (cases s) (auto simp: py_index_def bind_err_def)

theorem has_split_by_variant_witness:
  "splitter_probabilities (RandomSplitter [7 / 10, 0, 3 / 10]) = Some [7 / 10, 0, 3 / 10] \<and>
   length [7 / 10, 0, 3 / 10 :: real] = 3 \<and> (1::int) \<in> {0, 1, 2} \<and>
   has_split (RandomSplitter [7 / 10, 0, 3 / 10]) 1 = Inr False \<and>
   splitter_probabilities (FixedSplitter ''split'') = None \<and>
   has_split (FixedSplitter ''split'') 1 = Inr True"
  using has_split_by_variant [of "RandomSplitter [7 / 10, 0, 3 / 10]" "[7 / 10, 0, 3 / 10]" 1]
    has_split_by_variant [of "FixedSplitter ''split''" "[]" 1]
  by simp

subsection \<open>Writes into the label array\<close>

lemma fold_update_length:
  "length (fold (\<lambda>(i, v) a. a[f i := v]) ps arr) = length arr"
  by (induction ps arbitrary: arr) (auto split: prod.splits)

lemma np_setitem_length: "np_setitem arr idx vals = Inr arr' \<Longrightarrow> length arr' = length arr"
  by (auto simp: np_setitem_def fold_update_length split: if_splits)

lemma stratify_loop_length:
  "stratify_loop be ps df c vals split g = (Inr split', g') \<Longrightarrow> length split' = length split"
proof (induction vals arbitrary: split g)
  case Nil
  then show ?case by simp
next
  case (Cons val vals)
  then show ?case
    by (auto simp: Let_def split: sum.splits prod.splits dest!: np_setitem_length)
qed
















subsection \<open>The label array of StratifySplitter\<close>











lemma split_on_series_folds:
  assumes "length vs = length (rows df)" "split_on_series df vs = (res, df')"
  shows "df_setitem df TMP_SPLIT_COL vs = Inr df' \<and>
    (\<exists>fa fb fc. res = Inr (Some fa, Some fb, Some fc) \<and>
       df_drop (df_where_eq df' TMP_SPLIT_COL 0) TMP_SPLIT_COL = Inr fa \<and>
       df_drop (df_where_eq df' TMP_SPLIT_COL 1) TMP_SPLIT_COL = Inr fb \<and>
       df_drop (df_where_eq df' TMP_SPLIT_COL 2) TMP_SPLIT_COL = Inr fc)"
  using assms(2) unfolding split_on_series_ok [OF assms(1)]
  by (auto simp: df_setitem_ok [OF assms(1)] df_drop_def df_where_eq_def filter_set_rows
      drop_set_rows row_drop_row_set)

lemma split_on_series_scratch:
  assumes "length vs = length (rows df)" "split_on_series df vs = (res, df')"
  shows "df_setitem df TMP_SPLIT_COL vs = Inr df' \<and> df_contains TMP_SPLIT_COL df' \<and>
    (\<exists>a b c. res = Inr (Some a, Some b, Some c) \<and>
       list_all (\<lambda>f. \<not> df_contains TMP_SPLIT_COL f \<and>
                     list_all (\<lambda>r. TMP_SPLIT_COL \<notin> fst ` set (snd r)) (rows f)) [a, b, c])"
  using assms(2) unfolding split_on_series_ok [OF assms(1)]
  by (auto simp: df_setitem_ok [OF assms(1)] df_contains_def list_all_iff row_drop_keys)

subsection \<open>The scratch column after a split\<close>

text \<open>
  C3, as stated, fails: \<open>_split_on_series\<close> assigns the scratch column on the caller's
  dataframe object and drops it only from the frames it returns. After
  \<open>FixedSplitter.split\<close> the caller's dataframe, which had no such column, has the
  column \<open>__SPLIT__\<close>.
\<close>

theorem split_scratch_column_counterexample:
  "\<not> df_contains TMP_SPLIT_COL labelled_df \<and>
   columns (caller_df (Splitter_split local_backend (FixedSplitter ''split'') labelled_df 42
      (set_random_seed 0))) = [''C'', ''split'', ''__SPLIT__'']"
  by (simp add: FixedSplitter_split_def df_getitem_def split_on_series_ok df_contains_def
      TMP_SPLIT_COL_def labelled_df_def)

text \<open>
  C3, amended. For every backend, dataset and seed:
  \<^item> \<open>RandomSplitter.split\<close> introduces no scratch column and leaves the caller's
    dataframe as it was;
  \<^item> a call of \<open>FixedSplitter.split\<close> or \<open>StratifySplitter.split\<close> that raises leaves
    the caller's dataframe as it was;
  \<^item> when \<open>FixedSplitter.split\<close> or \<open>StratifySplitter.split\<close> returns, none of the
    three returned datasets has the scratch column, neither among its columns nor in any
    row, while the caller's dataframe is the input with the column \<open>__SPLIT__\<close> set to
    the fold labels: for \<open>FixedSplitter\<close> the values of the configured column, for
    \<open>StratifySplitter\<close> the label array that its loop computed; and returned fold i is
    the caller's dataframe restricted to the rows whose \<open>__SPLIT__\<close> is i, with that
    column dropped.
\<close>

theorem split_scratch_column:
  "(s = RandomSplitter ps \<longrightarrow> caller_df (Splitter_split be s df seed g) = df) \<and>
   (uses_split_on_series s \<longrightarrow>
      (result (Splitter_split be s df seed g) = Inl e \<longrightarrow>
         caller_df (Splitter_split be s df seed g) = df) \<and>
      (result (Splitter_split be s df seed g) = Inr (a, b, c) \<longrightarrow>
         (\<exists>labels. df_setitem df TMP_SPLIT_COL labels =
                     Inr (caller_df (Splitter_split be s df seed g))) \<and>
         df_contains TMP_SPLIT_COL (caller_df (Splitter_split be s df seed g)) \<and>
         (\<forall>f\<in>set_option a \<union> set_option b \<union> set_option c.
            \<not> df_contains TMP_SPLIT_COL f \<and>
            list_all (\<lambda>r. TMP_SPLIT_COL \<notin> fst ` set (snd r)) (rows f)) \<and>
         (\<exists>fa fb fc. a = Some fa \<and> b = Some fb \<and> c = Some fc \<and>
            df_drop (df_where_eq (caller_df (Splitter_split be s df seed g)) TMP_SPLIT_COL 0)
              TMP_SPLIT_COL = Inr fa \<and>
            df_drop (df_where_eq (caller_df (Splitter_split be s df seed g)) TMP_SPLIT_COL 1)
              TMP_SPLIT_COL = Inr fb \<and>
            df_drop (df_where_eq (caller_df (Splitter_split be s df seed g)) TMP_SPLIT_COL 2)
              TMP_SPLIT_COL = Inr fc) \<and>
         (s = FixedSplitter col \<longrightarrow>
            df_setitem df TMP_SPLIT_COL (map (\<lambda>r. row_cell r col) (rows df)) =
              Inr (caller_df (Splitter_split be s df seed g))) \<and>
         (s = StratifySplitter col qs \<longrightarrow>
            (\<exists>vals split' g2.
               bind_err (df_getitem df col) series_unique = Inr vals \<and>
               stratify_loop be qs df col vals (replicate (df_len df) 0)
                 (set_random_seed seed) = (Inr split', g2) \<and>
               df_setitem df TMP_SPLIT_COL (map IntC split') =
                 Inr (caller_df (Splitter_split be s df seed g))))))"
proof (cases s)
  case (RandomSplitter rs)
  then show ?thesis by (simp add: RandomSplitter_split_def Let_def)
next
  case (FixedSplitter fc)
  show ?thesis
  proof (cases "fc \<in> set (columns df)")
    case False
    then show ?thesis using FixedSplitter by (simp add: FixedSplitter_split_def df_getitem_def)
  next
    case True
    obtain res df' where sp: "split_on_series df (map (\<lambda>r. row_cell r fc) (rows df)) = (res, df')"
      by (cases "split_on_series df (map (\<lambda>r. row_cell r fc) (rows df))")
    from split_on_series_scratch [OF _ sp] split_on_series_folds [OF _ sp]
    show ?thesis using FixedSplitter True sp
      by (auto simp: FixedSplitter_split_def df_getitem_def)
  qed
next
  case (StratifySplitter sc sps)
  show ?thesis
  proof (cases "partitioned be")
    case True
    then show ?thesis using StratifySplitter by (simp add: StratifySplitter_split_def)
  next
    case np: False
    show ?thesis
    proof (cases "bind_err (df_getitem df sc) series_unique")
      case (Inl err)
      then show ?thesis using StratifySplitter np by (simp add: StratifySplitter_split_def Let_def)
    next
      case (Inr vals)
      obtain lr g2 where lp: "stratify_loop be sps df sc vals (replicate (df_len df) 0)
          (set_random_seed seed) = (lr, g2)"
        by (cases "stratify_loop be sps df sc vals (replicate (df_len df) 0) (set_random_seed seed)")
      show ?thesis
      proof (cases lr)
        case (Inl err)
        then show ?thesis using StratifySplitter np Inr lp
          by (simp add: StratifySplitter_split_def Let_def)
      next
        case split: (Inr split')
        with lp have len: "length (map IntC split') = length (rows df)"
          by (auto dest!: stratify_loop_length simp: df_len_def)
        obtain res df' where sp: "split_on_series df (map IntC split') = (res, df')"
          by (cases "split_on_series df (map IntC split')")
        from split_on_series_scratch [OF len sp] split_on_series_folds [OF len sp]
        show ?thesis using StratifySplitter np Inr lp split sp
          by (auto simp: StratifySplitter_split_def Let_def)
      qed
    qed
  qed
next
  case (DatetimeSplitter dc dps f v)
  then show ?thesis by simp
qed


theorem split_scratch_column_witness:
  "uses_split_on_series (FixedSplitter ''split'') \<and>
   result (Splitter_split local_backend (FixedSplitter ''split'') labelled_df 42
             (set_random_seed 0)) =
     Inr (Some (df_where_eq labelled_df ''split'' 0), Some (df_where_eq labelled_df ''split'' 1),
          Some (df_where_eq labelled_df ''split'' 2)) \<and>
   df_contains TMP_SPLIT_COL
     (caller_df (Splitter_split local_backend (FixedSplitter ''split'') labelled_df 42
                   (set_random_seed 0))) \<and>
   df_setitem labelled_df TMP_SPLIT_COL [IntC 0, IntC 2, IntC 1, IntC 0] =
     Inr (caller_df (Splitter_split local_backend (FixedSplitter ''split'') labelled_df 42
                   (set_random_seed 0))) \<and>
   \<not> df_contains TMP_SPLIT_COL (df_where_eq labelled_df ''split'' 0) \<and>
   \<not> df_contains TMP_SPLIT_COL (df_where_eq labelled_df ''split'' 1) \<and>
   \<not> df_contains TMP_SPLIT_COL (df_where_eq labelled_df ''split'' 2) \<and>
   caller_df (Splitter_split local_backend (RandomSplitter DEFAULT_PROBABILITIES) labelled_df 42
                (set_random_seed 0)) = labelled_df"
proof -
  have res: "result (Splitter_split local_backend (FixedSplitter ''split'') labelled_df 42
             (set_random_seed 0)) =
     Inr (Some (df_where_eq labelled_df ''split'' 0), Some (df_where_eq labelled_df ''split'' 1),
          Some (df_where_eq labelled_df ''split'' 2))"
    by (simp add: FixedSplitter_split_def df_getitem_def split_on_series_ok df_where_eq_def
        labelled_df_def TMP_SPLIT_COL_def row_cell_def row_drop_def)
  have col: "map (\<lambda>r. row_cell r ''split'') (rows labelled_df) = [IntC 0, IntC 2, IntC 1, IntC 0]"
    by (simp add: labelled_df_def row_cell_def)
  from split_scratch_column
    [where s = "FixedSplitter ''split''" and be = local_backend and df = labelled_df
       and seed = 42 and g = "set_random_seed 0" and col = "''split''"
       and a = "Some (df_where_eq labelled_df ''split'' 0)"
       and b = "Some (df_where_eq labelled_df ''split'' 1)"
       and c = "Some (df_where_eq labelled_df ''split'' 2)"] res
  have fixed: "df_contains TMP_SPLIT_COL
     (caller_df (Splitter_split local_backend (FixedSplitter ''split'') labelled_df 42
                   (set_random_seed 0))) \<and>
   df_setitem labelled_df TMP_SPLIT_COL [IntC 0, IntC 2, IntC 1, IntC 0] =
     Inr (caller_df (Splitter_split local_backend (FixedSplitter ''split'') labelled_df 42
                   (set_random_seed 0))) \<and>
   \<not> df_contains TMP_SPLIT_COL (df_where_eq labelled_df ''split'' 0) \<and>
   \<not> df_contains TMP_SPLIT_COL (df_where_eq labelled_df ''split'' 1) \<and>
   \<not> df_contains TMP_SPLIT_COL (df_where_eq labelled_df ''split'' 2)"
    unfolding col [symmetric] by simp
  from split_scratch_column
    [where s = "RandomSplitter DEFAULT_PROBABILITIES" and ps = DEFAULT_PROBABILITIES
       and be = local_backend and df = labelled_df and seed = 42 and g = "set_random_seed 0"]
  have random: "caller_df (Splitter_split local_backend (RandomSplitter DEFAULT_PROBABILITIES)
      labelled_df 42 (set_random_seed 0)) = labelled_df"
    by simp
  show ?thesis using res fixed random by simp
qed

subsection \<open>The warning of split_dataset\<close>

text \<open>
  C9. With a registry whose default is the random splitter: when the parameters have
  no "split" key and the dataframe has a column named "split", \<open>split_dataset\<close> emits
  exactly the one warning and returns what the random splitter with the default
  probabilities returns for the dataset; when the key is present or the column is absent,
  it emits no warning.
\<close>

theorem split_dataset_warning:
  assumes "reg None = Some RandomSplitter_init"
  shows "(params ''split'' = None \<and> df_contains SPLIT df \<longrightarrow>
           split_dataset reg be df params seed g =
             ([split_warning], RandomSplitter_split be DEFAULT_PROBABILITIES df seed g)) \<and>
         (\<not> (params ''split'' = None \<and> df_contains SPLIT df) \<longrightarrow>
           fst (split_dataset reg be df params seed g) = [])"
  using assms
  by (auto simp: split_dataset_def Let_def get_splitter_def empty_config_def
      RandomSplitter_init_def or_default_def bind_err_def split: sum.splits option.splits)

theorem split_dataset_warning_witness:
  "split_registry None = Some RandomSplitter_init \<and>
   (Map.empty :: string \<rightharpoonup> split_config) ''split'' = None \<and>
   df_contains SPLIT labelled_df \<and>
   split_dataset split_registry local_backend labelled_df Map.empty 42 (set_random_seed 0) =
     ([split_warning],
      RandomSplitter_split local_backend DEFAULT_PROBABILITIES labelled_df 42 (set_random_seed 0)) \<and>
   fst (split_dataset split_registry local_backend labelled_df
          [''split'' \<mapsto> empty_config\<lparr>cfg_type := Some ''fixed''\<rparr>] 42 (set_random_seed 0)) = []"
proof -
  have reg: "split_registry None = Some RandomSplitter_init"
    by (simp add: split_registry_def)
  have col: "df_contains SPLIT labelled_df"
    by (simp add: df_contains_def SPLIT_def labelled_df_def)
  from split_dataset_warning
      [where reg = split_registry and params = Map.empty and df = labelled_df
         and be = local_backend and seed = 42 and g = "set_random_seed 0"]
    split_dataset_warning
      [where reg = split_registry
         and params = "[''split'' \<mapsto> empty_config\<lparr>cfg_type := Some ''fixed''\<rparr>]"
         and df = labelled_df and be = local_backend and seed = 42 and g = "set_random_seed 0"]
  show ?thesis using reg col by simp
qed

end
